theory Spec2Isabelle
  imports Main "HOL-Library.Sublist"
begin

section \<open>The builder's data\<close>

text \<open>
  The embedding follows \<^verbatim>\<open>SQLQueryBuilder.cpp\<close>. A \<^verbatim>\<open>std::string\<close> is a \<open>string\<close>
  (a list of bytes), a \<^verbatim>\<open>std::vector\<close> is a list, the \<^verbatim>\<open>std::unordered_set\<close> of
  reserved keywords is a set. The two \<^verbatim>\<open>int\<close> fields are only stored, compared with
  zero and printed, never computed with, so they are modelled as \<open>int\<close>: every value of
  the machine type is one of them.

  The \<^verbatim>\<open>std::unordered_map\<close> named \<^verbatim>\<open>values\<close> is the field \<open>values_map\<close>
  (\<open>values\<close> is a keyword of Isabelle): the list of its entries in the order in which
  the table iterates over them at that moment. Its keys are
  distinct. That order is fixed by the implementation of the hash table, not by the
  program, so nothing below depends on a particular order.
\<close>

datatype DatabaseType = Oracle | MariaDB

record SQLQueryBuilder =
  dbType :: DatabaseType
  selectFields :: "string list"
  tableName :: string
  whereConditions :: "string list"
  joins :: "string list"
  orderBy :: string
  indexClause :: string
  is_distinct :: bool
  limit :: int
  offset :: int
  values_map :: "(string \<times> string) list"
  reservedKeywords :: "string set"

text \<open>
  The constructor: the member initialisers of the class (\<^verbatim>\<open>is_distinct = false\<close>,
  \<^verbatim>\<open>limit = -1\<close>, \<^verbatim>\<open>offset = -1\<close>), empty containers and strings, then
  \<^verbatim>\<open>InitializeReservedKeywords\<close>.
\<close>

definition InitializeReservedKeywords :: "SQLQueryBuilder \<Rightarrow> SQLQueryBuilder" where
  "InitializeReservedKeywords s =
     s\<lparr>reservedKeywords := {''DATE'', ''USER'', ''ORDER'', ''GROUP'', ''INDEX''}\<rparr>"

definition new_SQLQueryBuilder :: "DatabaseType \<Rightarrow> SQLQueryBuilder" where
  "new_SQLQueryBuilder t =
     InitializeReservedKeywords
       \<lparr>dbType = t, selectFields = [], tableName = [], whereConditions = [], joins = [],
        orderBy = [], indexClause = [], is_distinct = False, limit = - 1, offset = - 1,
        values_map = [], reservedKeywords = {}\<rparr>"

section \<open>Library functions the class uses\<close>

text \<open>
  \<^verbatim>\<open>operator<<\<close> of an \<^verbatim>\<open>int\<close> on a stream in its default state: the decimal digits, a
  minus sign before those of a negative number.
\<close>

definition digit_char :: "nat \<Rightarrow> char" where
  "digit_char d = ''0123456789'' ! d"

fun digits_of :: "nat \<Rightarrow> string" where
  "digits_of n =
     (if n < 10 then [digit_char n] else digits_of (n div 10) @ [digit_char (n mod 10)])"

declare digits_of.simps [simp del]

definition int_to_string :: "int \<Rightarrow> string" where
  "int_to_string i = (if i < 0 then CHR ''-'' # digits_of (nat (- i)) else digits_of (nat i))"

text \<open>
  \<^verbatim>\<open>std::string::find(str)\<close>: the least position at which \<open>str\<close> starts in the string,
  \<open>None\<close> for \<^verbatim>\<open>npos\<close>. The empty string is found at position 0.
\<close>

fun str_find :: "string \<Rightarrow> string \<Rightarrow> nat option" where
  "str_find [] str = (if str = [] then Some 0 else None)"
| "str_find (c # cs) str =
     (if prefix str (c # cs) then Some 0 else map_option Suc (str_find cs str))"

text \<open>
  \<^verbatim>\<open>std::string::replace(pos, len, str)\<close> for \<open>pos\<close> within the string, the only way the
  class calls it (\<open>pos\<close> comes from \<^verbatim>\<open>find\<close>, see \<open>str_find_le_length\<close> below, so the
  call never throws \<^verbatim>\<open>std::out_of_range\<close>): the characters from \<open>pos\<close>, at most \<open>len\<close>
  of them, give way to \<open>str\<close>.
\<close>

definition str_replace :: "string \<Rightarrow> nat \<Rightarrow> nat \<Rightarrow> string \<Rightarrow> string" where
  "str_replace s pos len str = take pos s @ str @ drop (pos + len) s"

section \<open>Private helpers\<close>

text \<open>\<^verbatim>\<open>Join\<close>: the loop over the index \<open>i\<close>, writing to the stream \<open>result\<close>.\<close>

fun Join_loop :: "nat \<Rightarrow> string list \<Rightarrow> string \<Rightarrow> string \<Rightarrow> string" where
  "Join_loop i [] delimiter result = result"
| "Join_loop i (element # elements) delimiter result =
     Join_loop (Suc i) elements delimiter
       ((if 0 < i then result @ delimiter else result) @ element)"

definition Join :: "string list \<Rightarrow> string \<Rightarrow> string" where
  "Join elements delimiter = Join_loop 0 elements delimiter []"

text \<open>
  \<^verbatim>\<open>ConvertToString\<close> is a template over every type that can be written to a stream.
  Two instances are modelled: strings (and string literals), written as they are, and
  \<^verbatim>\<open>int\<close>.
\<close>

datatype sql_value = StringValue string | IntValue int

fun ConvertToString :: "sql_value \<Rightarrow> string" where
  "ConvertToString (StringValue v) = v"
| "ConvertToString (IntValue i) = int_to_string i"

text \<open>The back-tick is \<open>CHR 0x60\<close>, the double quote \<open>CHR 0x22\<close>, the single quote \<open>CHR 0x27\<close>.\<close>

definition HandleReservedKeyword :: "SQLQueryBuilder \<Rightarrow> string \<Rightarrow> string" where
  "HandleReservedKeyword s field =
     (if field \<in> reservedKeywords s then
        (if dbType s = MariaDB then [CHR 0x60] @ field @ [CHR 0x60]
         else [CHR 0x22] @ field @ [CHR 0x22])
      else field)"

definition FormatDateTime :: "SQLQueryBuilder \<Rightarrow> string \<Rightarrow> string" where
  "FormatDateTime s dateTime =
     (if dbType s = MariaDB then [CHR 0x27] @ dateTime @ [CHR 0x27]
      else ''TO_TIMESTAMP('' @ [CHR 0x27] @ dateTime @ [CHR 0x27] @ '', '' @ [CHR 0x27]
             @ ''YYYY-MM-DD HH24:MI:SS'' @ [CHR 0x27] @ '')'')"

section \<open>The fluent mutators\<close>

text \<open>
  Each mutator changes the object and returns \<^verbatim>\<open>*this\<close>; the model takes the state of
  the object and returns its state after the call. The default arguments of the source
  (\<^verbatim>\<open>isDateTime = false\<close> in \<open>Where\<close>, \<^verbatim>\<open>ascending = true\<close> in \<open>OrderBy\<close>) are
  written out at each call.
\<close>

fun Select :: "string list \<Rightarrow> SQLQueryBuilder \<Rightarrow> SQLQueryBuilder" where
  "Select [] s = s"
| "Select (field # more_fields) s =
     Select more_fields (s\<lparr>selectFields := selectFields s @ [HandleReservedKeyword s field]\<rparr>)"

definition From :: "string \<Rightarrow> SQLQueryBuilder \<Rightarrow> SQLQueryBuilder" where
  "From table s = s\<lparr>tableName := table\<rparr>"

definition Distinct :: "SQLQueryBuilder \<Rightarrow> SQLQueryBuilder" where
  "Distinct s = s\<lparr>is_distinct := True\<rparr>"

fun Where :: "(string \<times> string) list \<Rightarrow> bool \<Rightarrow> SQLQueryBuilder \<Rightarrow> SQLQueryBuilder" where
  "Where [] isDateTime s = s"
| "Where (condition # conditions) isDateTime s =
     (let formattedValue =
            (if isDateTime then FormatDateTime s (snd condition) else snd condition)
      in Where conditions isDateTime
           (s\<lparr>whereConditions := whereConditions s
                 @ [HandleReservedKeyword s (fst condition) @ '' = '' @ formattedValue]\<rparr>))"

fun WhereWithPlaceholder :: "(string \<times> string) list \<Rightarrow> SQLQueryBuilder \<Rightarrow> SQLQueryBuilder" where
  "WhereWithPlaceholder [] s = s"
| "WhereWithPlaceholder (condition # conditions) s =
     WhereWithPlaceholder conditions
       (s\<lparr>whereConditions := whereConditions s
             @ [HandleReservedKeyword s (fst condition) @ '' = '' @ snd condition]\<rparr>)"

text \<open>
  \<^verbatim>\<open>values[placeholder] = ...\<close>: the value of a key that is present is overwritten
  where it stands. A new key is inserted, and where the table then iterates over it (and,
  after a rehash, over the other entries) is the implementation's choice: \<open>arrange\<close>
  stands for that choice, a rearrangement of the entries.
\<close>

definition SetValue ::
  "((string \<times> string) list \<Rightarrow> (string \<times> string) list) \<Rightarrow> string \<Rightarrow> sql_value
     \<Rightarrow> SQLQueryBuilder \<Rightarrow> SQLQueryBuilder" where
  "SetValue arrange placeholder v s =
     (case map_of (values_map s) placeholder of
        Some old \<Rightarrow>
          s\<lparr>values_map := map (\<lambda>pair. if fst pair = placeholder
                                   then (placeholder, ConvertToString v) else pair) (values_map s)\<rparr>
      | None \<Rightarrow> s\<lparr>values_map := arrange ((placeholder, ConvertToString v) # values_map s)\<rparr>)"

definition InnerJoin :: "string \<Rightarrow> string \<Rightarrow> SQLQueryBuilder \<Rightarrow> SQLQueryBuilder" where
  "InnerJoin table onCondition s =
     s\<lparr>joins := joins s @ [''INNER JOIN '' @ table @ '' ON '' @ onCondition]\<rparr>"

definition OrderBy :: "string \<Rightarrow> bool \<Rightarrow> SQLQueryBuilder \<Rightarrow> SQLQueryBuilder" where
  "OrderBy field ascending s =
     s\<lparr>orderBy := HandleReservedKeyword s field @ (if ascending then '' ASC'' else '' DESC'')\<rparr>"

definition Index :: "string \<Rightarrow> SQLQueryBuilder \<Rightarrow> SQLQueryBuilder" where
  "Index indexName s = s\<lparr>indexClause := indexName\<rparr>"

definition Limit :: "int \<Rightarrow> SQLQueryBuilder \<Rightarrow> SQLQueryBuilder" where
  "Limit n s = s\<lparr>limit := n\<rparr>"

definition Offset :: "int \<Rightarrow> SQLQueryBuilder \<Rightarrow> SQLQueryBuilder" where
  "Offset n s = s\<lparr>offset := n\<rparr>"

text \<open>The states a program can bring a builder into: constructed, then any calls.\<close>

inductive reachable :: "SQLQueryBuilder \<Rightarrow> bool" where
  constructed: "reachable (new_SQLQueryBuilder t)"
| after_Select: "reachable s \<Longrightarrow> reachable (Select field_list s)"
| after_From: "reachable s \<Longrightarrow> reachable (From table s)"
| after_Distinct: "reachable s \<Longrightarrow> reachable (Distinct s)"
| after_Where: "reachable s \<Longrightarrow> reachable (Where conditions isDateTime s)"
| after_WhereWithPlaceholder: "reachable s \<Longrightarrow> reachable (WhereWithPlaceholder conditions s)"
| after_SetValue: "reachable s \<Longrightarrow> reachable (SetValue arrange placeholder v s)"
| after_InnerJoin: "reachable s \<Longrightarrow> reachable (InnerJoin table onCondition s)"
| after_OrderBy: "reachable s \<Longrightarrow> reachable (OrderBy field ascending s)"
| after_Index: "reachable s \<Longrightarrow> reachable (Index indexName s)"
| after_Limit: "reachable s \<Longrightarrow> reachable (Limit n s)"
| after_Offset: "reachable s \<Longrightarrow> reachable (Offset n s)"

section \<open>Build\<close>

text \<open>
  The body of \<^verbatim>\<open>Build\<close> runs on the object and the local stream \<open>query\<close>. Each block of
  the body is a step on that pair, so that what a block does to the object is visible
  in the model. In the order of the source: \<open>Build_select\<close> (line 87),
  \<open>Build_oracle_hint\<close> (89 to 92), \<open>Build_fields\<close> (94 to 105), \<open>Build_from\<close> (107),
  \<open>Build_force_index\<close> (109 to 112), \<open>Build_joins\<close> (114 to 116), \<open>Build_where\<close>
  (118 to 127), \<open>Build_orderBy\<close> (129 to 131), \<open>Build_pagination\<close> (133 to 145).
  \<open>put\<close> is \<^verbatim>\<open>query << text\<close>.
\<close>

record Build_frame =
  self :: SQLQueryBuilder
  query :: string

definition put :: "string \<Rightarrow> Build_frame \<Rightarrow> Build_frame" where
  "put text f = f\<lparr>query := query f @ text\<rparr>"

definition Build_select :: "Build_frame \<Rightarrow> Build_frame" where
  "Build_select f = put ''SELECT '' f"

definition Build_oracle_hint :: "Build_frame \<Rightarrow> Build_frame" where
  "Build_oracle_hint f =
     (if dbType (self f) = Oracle \<and> indexClause (self f) \<noteq> []
      then put ('' /*+ INDEX('' @ tableName (self f) @ '', '' @ indexClause (self f) @ '') */ '') f
      else f)"

definition Build_fields :: "Build_frame \<Rightarrow> Build_frame" where
  "Build_fields f =
     (if selectFields (self f) = [] then put ''*'' f
      else (let g = (if is_distinct (self f) then put '' DISTINCT  '' f else f)
            in put (Join (selectFields (self g)) '', '') g))"

definition Build_from :: "Build_frame \<Rightarrow> Build_frame" where
  "Build_from f = (let g = put '' FROM '' f in put (tableName (self g)) g)"

definition Build_force_index :: "Build_frame \<Rightarrow> Build_frame" where
  "Build_force_index f =
     (if dbType (self f) = MariaDB \<and> indexClause (self f) \<noteq> []
      then put '') '' (put (indexClause (self f)) (put '' FORCE INDEX('' f))
      else f)"

fun Build_joins_loop :: "string list \<Rightarrow> Build_frame \<Rightarrow> Build_frame" where
  "Build_joins_loop [] f = f"
| "Build_joins_loop (join # rest) f = Build_joins_loop rest (put join (put '' '' f))"

definition Build_joins :: "Build_frame \<Rightarrow> Build_frame" where
  "Build_joins f = Build_joins_loop (joins (self f)) f"

text \<open>The body of the loop over \<open>values\<close>, on the local string \<open>whereClause\<close>.\<close>

definition replace_placeholder :: "string \<Rightarrow> string \<times> string \<Rightarrow> string" where
  "replace_placeholder whereClause pair =
     (case str_find whereClause (fst pair) of
        None \<Rightarrow> whereClause
      | Some pos \<Rightarrow> str_replace whereClause pos (length (fst pair)) (snd pair))"

fun Build_values_loop :: "(string \<times> string) list \<Rightarrow> string \<Rightarrow> string" where
  "Build_values_loop [] whereClause = whereClause"
| "Build_values_loop (pair # rest) whereClause =
     Build_values_loop rest (replace_placeholder whereClause pair)"

definition Build_where :: "Build_frame \<Rightarrow> Build_frame" where
  "Build_where f =
     (if whereConditions (self f) \<noteq> [] then
        (let whereClause = Join (whereConditions (self f)) '' AND '';
             whereClause = Build_values_loop (values_map (self f)) whereClause
         in put whereClause (put '' WHERE '' f))
      else f)"

definition Build_orderBy :: "Build_frame \<Rightarrow> Build_frame" where
  "Build_orderBy f =
     (if orderBy (self f) \<noteq> [] then put (orderBy (self f)) (put '' ORDER BY '' f) else f)"

definition Build_pagination :: "Build_frame \<Rightarrow> Build_frame" where
  "Build_pagination f =
     (if dbType (self f) = MariaDB then
        (if 0 \<le> limit (self f) then
           (let g = put (int_to_string (limit (self f))) (put '' LIMIT '' f)
            in if 0 < offset (self g)
               then put (int_to_string (offset (self g))) (put '' OFFSET '' g)
               else g)
         else f)
      else if dbType (self f) = Oracle then
        (if 0 \<le> limit (self f)
         then put '' ROWS ONLY'' (put (int_to_string (limit (self f))) (put '' FETCH FIRST '' f))
         else f)
      else f)"

definition Build_body :: "Build_frame \<Rightarrow> Build_frame" where
  "Build_body f =
     Build_pagination (Build_orderBy (Build_where (Build_joins (Build_force_index
       (Build_from (Build_fields (Build_oracle_hint (Build_select f))))))))"

text \<open>
  A call of \<^verbatim>\<open>Build\<close>: the body runs on the object and an empty stream, and returns the
  stream's text; the second component is the object after the call.
\<close>

definition Build_call :: "SQLQueryBuilder \<Rightarrow> string \<times> SQLQueryBuilder" where
  "Build_call s = (let f = Build_body \<lparr>self = s, query = []\<rparr> in (query f, self f))"

definition Build :: "SQLQueryBuilder \<Rightarrow> string" where
  "Build s = fst (Build_call s)"

text \<open>What a step of the body writes for an object \<open>s\<close>: its output on an empty stream.\<close>

definition emitted :: "(Build_frame \<Rightarrow> Build_frame) \<Rightarrow> SQLQueryBuilder \<Rightarrow> string" where
  "emitted step s = query (step \<lparr>self = s, query = []\<rparr>)"

section \<open>Example programs\<close>

text \<open>
  The program of \<^verbatim>\<open>main\<close>, and short programs that use placeholders. Where a
  call of \<open>SetValue\<close> inserts a new key, the entries are taken in the order in which a
  hash table with separate chains that links a new node at the head iterates over them
  (the latest key first); any other order comes from another choice of \<open>arrange\<close>.
\<close>

definition main_example :: SQLQueryBuilder where
  "main_example =
     Offset 5 (Limit 10 (OrderBy ''name'' True
       (InnerJoin ''orders'' ''users.id = orders.user_id''
         (SetValue id ''?joindate'' (StringValue ''SYSDATE'')
           (WhereWithPlaceholder [(''join_date'', ''?joindate'')]
             (Index ''idx_users_name'' (From ''users'' (Distinct
               (Select [''id'', ''name'', ''DATE''] (new_SQLQueryBuilder MariaDB))))))))))"

definition prefix_token_example :: SQLQueryBuilder where
  "prefix_token_example =
     SetValue id '':id'' (IntValue 7)
       (WhereWithPlaceholder [(''a'', '':id2''), (''b'', '':id'')]
         (From ''t'' (new_SQLQueryBuilder MariaDB)))"

definition empty_key_example :: SQLQueryBuilder where
  "empty_key_example =
     SetValue id [] (StringValue ''a'') (SetValue id ''a'' (StringValue ''b'')
       (Where [(''c'', ''1'')] False (From ''t'' (new_SQLQueryBuilder MariaDB))))"

definition only_empty_key_example :: SQLQueryBuilder where
  "only_empty_key_example =
     SetValue id [] (StringValue ''NOT '')
       (Where [(''c'', ''1'')] False (From ''t'' (new_SQLQueryBuilder MariaDB)))"

definition unused_token_example :: SQLQueryBuilder where
  "unused_token_example =
     SetValue id ''?id'' (IntValue 7)
       (WhereWithPlaceholder [(''join_date'', ''?joindate'')]
         (From ''users'' (new_SQLQueryBuilder MariaDB)))"

section \<open>Facts about the library functions\<close>

lemma digits_of_small: "n < 10 \<Longrightarrow> digits_of n = [digit_char n]"
  by (simp add: digits_of.simps)

lemma digit_char_in: "d < 10 \<Longrightarrow> digit_char d \<in> set ''0123456789''"
proof -
  assume "d < 10"
  then have "d < length ''0123456789''" by simp
  then show ?thesis unfolding digit_char_def by (rule nth_mem)
qed

lemma digits_of_subset:
  assumes D: "\<And>d. d < 10 \<Longrightarrow> digit_char d \<in> D"
  shows "set (digits_of n) \<subseteq> D"
proof (induction n rule: digits_of.induct)
  case (1 n)
  show ?case
  proof (cases "n < 10")
    case True
    then have "digits_of n = [digit_char n]" by (rule digits_of_small)
    with D [OF True] show ?thesis by simp
  next
    case False
    have a: "digit_char (n mod 10) \<in> D" by (rule D) simp
    have b: "set (digits_of (n div 10)) \<subseteq> D" by (rule "1.IH" [OF False])
    have "digits_of n = digits_of (n div 10) @ [digit_char (n mod 10)]"
      using False by (subst digits_of.simps) (simp only: if_False)
    with a b show ?thesis by simp
  qed
qed

lemma int_to_string_subset:
  assumes D: "\<And>d. d < 10 \<Longrightarrow> digit_char d \<in> D"
  shows "set (int_to_string i) \<subseteq> insert CHR ''-'' D"
  using digits_of_subset [of D "nat i", OF D] digits_of_subset [of D "nat (- i)", OF D]
  by (auto simp: int_to_string_def)

lemma in_notin_neq: "x \<in> S \<Longrightarrow> y \<notin> S \<Longrightarrow> x \<noteq> y"
  by blast

lemma int_to_string_no_O: "CHR ''O'' \<notin> set (int_to_string i)"
proof -
  have n: "CHR ''O'' \<notin> set ''0123456789''" by simp
  have "\<And>d. d < 10 \<Longrightarrow> digit_char d \<in> UNIV - {CHR ''O''}"
  proof -
    fix d :: nat assume "d < 10"
    then have "digit_char d \<in> set ''0123456789''" by (rule digit_char_in)
    with n have "digit_char d \<noteq> CHR ''O''" by (rule in_notin_neq [rotated])
    then show "digit_char d \<in> UNIV - {CHR ''O''}" by simp
  qed
  then have "set (int_to_string i) \<subseteq> insert CHR ''-'' (UNIV - {CHR ''O''})"
    by (rule int_to_string_subset)
  then show ?thesis by auto
qed

lemma sublist_skip:
  "x \<notin> set ys \<Longrightarrow> sublist (x # xs) (ys @ zs) = sublist (x # xs) zs"
proof (induction ys)
  case Nil
  show ?case by simp
next
  case (Cons y ys)
  then have "x \<noteq> y" "x \<notin> set ys" by simp_all
  with Cons.IH show ?case by (simp add: sublist_Cons_right)
qed

lemma no_OFFSET_in_fetch_first:
  "\<not> sublist ''OFFSET'' ('' FETCH FIRST '' @ int_to_string i @ '' ROWS ONLY'')"
proof -
  have "CHR ''O'' \<notin> set '' FETCH FIRST ''" by simp
  with int_to_string_no_O [of i] have "CHR ''O'' \<notin> set ('' FETCH FIRST '' @ int_to_string i)"
    by (simp only: set_append Un_iff simp_thms)
  then have "sublist ''OFFSET'' (('' FETCH FIRST '' @ int_to_string i) @ '' ROWS ONLY'')
               = sublist ''OFFSET'' '' ROWS ONLY''"
    by (rule sublist_skip)
  moreover have "\<not> sublist ''OFFSET'' '' ROWS ONLY''"
    by (simp add: sublist_Cons_right)
  ultimately have "\<not> sublist ''OFFSET'' (('' FETCH FIRST '' @ int_to_string i) @ '' ROWS ONLY'')"
    by blast
  then show ?thesis by (simp only: append_assoc simp_thms)
qed

lemma str_find_None: "str_find w k = None \<longleftrightarrow> \<not> sublist k w"
proof (induction w)
  case Nil
  show ?case by simp
next
  case (Cons c cs)
  show ?case
  proof (cases "prefix k (c # cs)")
    case True
    then show ?thesis by (simp add: sublist_Cons_right)
  next
    case False
    then show ?thesis using Cons by (simp add: sublist_Cons_right)
  qed
qed

lemma str_find_first:
  "\<forall>q<length xs. \<not> prefix k (drop q (xs @ k @ ys)) \<Longrightarrow> str_find (xs @ k @ ys) k = Some (length xs)"
proof (induction xs)
  case Nil
  have "prefix k (k @ ys)" by simp
  then show ?case by (cases "k @ ys") simp_all
next
  case (Cons x xs)
  from Cons.prems have "\<not> prefix k (drop 0 ((x # xs) @ k @ ys))" by blast
  then have no: "\<not> prefix k (x # xs @ k @ ys)" by simp
  have "\<forall>q<length xs. \<not> prefix k (drop q (xs @ k @ ys))"
  proof (intro allI impI)
    fix q assume "q < length xs"
    then have "Suc q < length (x # xs)" by simp
    with Cons.prems have "\<not> prefix k (drop (Suc q) ((x # xs) @ k @ ys))" by blast
    then show "\<not> prefix k (drop q (xs @ k @ ys))" by simp
  qed
  then have "str_find (xs @ k @ ys) k = Some (length xs)" by (rule Cons.IH)
  with no show ?case by simp
qed


lemma str_find_Some:
  "str_find w k = Some p \<Longrightarrow> p + length k \<le> length w \<and> take (length k) (drop p w) = k
     \<and> (\<forall>q<p. \<not> prefix k (drop q w))"
proof (induction w arbitrary: p)
  case Nil
  then have "k = []" "p = 0" by (simp_all split: if_splits)
  then show ?case by simp
next
  case (Cons c cs)
  show ?case
  proof (cases "prefix k (c # cs)")
    case True
    with Cons.prems have p0: "p = 0" by simp
    from True obtain zs where zs: "c # cs = k @ zs" by (auto simp: prefix_def)
    have "length (c # cs) = length k + length zs" by (simp add: zs)
    moreover have "take (length k) (c # cs) = k" by (simp add: zs)
    ultimately show ?thesis using p0 by simp
  next
    case False
    with Cons.prems obtain p' where p': "str_find cs k = Some p'" "p = Suc p'" by auto
    from Cons.IH [OF p'(1)] have ih: "p' + length k \<le> length cs" "take (length k) (drop p' cs) = k"
      "\<forall>q<p'. \<not> prefix k (drop q cs)" by simp_all
    have "\<forall>q<p. \<not> prefix k (drop q (c # cs))"
    proof (intro allI impI)
      fix q assume "q < p"
      show "\<not> prefix k (drop q (c # cs))"
      proof (cases q)
        case 0
        with False show ?thesis by simp
      next
        case (Suc r)
        with \<open>q < p\<close> p'(2) have "r < p'" by simp
        with ih(3) Suc show ?thesis by simp
      qed
    qed
    with ih p'(2) show ?thesis by simp
  qed
qed

lemma str_find_le_length: "str_find w k = Some p \<Longrightarrow> p \<le> length w"
  using str_find_Some [of w k p] by simp

lemma str_find_empty: "str_find w [] = Some 0"
  by (cases w) simp_all

lemma replace_placeholder_absent: "\<not> sublist k w \<Longrightarrow> replace_placeholder w (k, v) = w"
proof -
  assume "\<not> sublist k w"
  then have "str_find w k = None" by (simp add: str_find_None)
  then show ?thesis by (simp add: replace_placeholder_def)
qed

lemma replace_placeholder_first:
  "\<forall>q<length xs. \<not> prefix k (drop q (xs @ k @ ys))
    \<Longrightarrow> replace_placeholder (xs @ k @ ys) (k, v) = xs @ v @ ys"
  by (simp add: replace_placeholder_def str_find_first str_replace_def)

lemma replace_placeholder_empty: "replace_placeholder w ([], v) = v @ w"
  by (simp add: replace_placeholder_def str_find_empty str_replace_def)

section \<open>Facts about the helpers\<close>

lemma Join_loop_result: "Join_loop i es d (r @ t) = r @ Join_loop i es d t"
proof (induction es arbitrary: i t)
  case Nil
  show ?case by simp
next
  case (Cons e es)
  have "Join_loop i (e # es) d (r @ t) = Join_loop (Suc i) es d (r @ ((if 0 < i then t @ d else t) @ e))"
    by simp
  also have "\<dots> = r @ Join_loop (Suc i) es d ((if 0 < i then t @ d else t) @ e)"
    by (rule Cons.IH)
  finally show ?case by simp
qed

lemma Join_loop_pos: "0 < i \<Longrightarrow> 0 < j \<Longrightarrow> Join_loop i es d r = Join_loop j es d r"
proof (induction es arbitrary: i j r)
  case Nil
  show ?case by simp
next
  case (Cons e es)
  have "Join_loop (Suc i) es d ((r @ d) @ e) = Join_loop (Suc j) es d ((r @ d) @ e)"
    by (rule Cons.IH) simp_all
  with Cons.prems show ?case by simp
qed

lemma Join_Nil: "Join [] d = []"
  by (simp add: Join_def)

lemma Join_single: "Join [e] d = e"
  by (simp add: Join_def)

lemma Join_Cons_Cons: "Join (e # e' # es) d = e @ d @ Join (e' # es) d"
proof -
  have "Join (e # e' # es) d = Join_loop (Suc (Suc 0)) es d ((e @ d) @ (e' @ []))"
    by (simp add: Join_def)
  also have "\<dots> = (e @ d) @ Join_loop (Suc (Suc 0)) es d (e' @ [])"
    by (simp only: Join_loop_result)
  also have "Join_loop (Suc (Suc 0)) es d (e' @ []) = Join_loop (Suc 0) es d e'"
    using Join_loop_pos [of "Suc (Suc 0)" "Suc 0" es d e'] by simp
  also have "Join_loop (Suc 0) es d e' = Join (e' # es) d"
    by (simp add: Join_def)
  finally show ?thesis by simp
qed

lemma Join_Cons_prefix: "prefix c (Join (c # cs) d)"
proof -
  have "Join (c # cs) d = Join_loop (Suc 0) cs d (c @ [])" by (simp add: Join_def)
  also have "\<dots> = c @ Join_loop (Suc 0) cs d []" by (rule Join_loop_result)
  finally show ?thesis by simp
qed

lemma Build_values_loop_foldl: "Build_values_loop ps w = foldl replace_placeholder w ps"
  by (induction ps arbitrary: w) simp_all

lemma Build_values_loop_append:
  "Build_values_loop (ps @ qs) w = Build_values_loop qs (Build_values_loop ps w)"
  by (induction ps arbitrary: w) simp_all

lemma Build_values_loop_absent:
  "\<forall>pair\<in>set ps. \<not> sublist (fst pair) w \<Longrightarrow> Build_values_loop ps w = w"
proof (induction ps)
  case Nil
  show ?case by simp
next
  case (Cons pair ps)
  then have "\<not> sublist (fst pair) w" by simp
  then have "replace_placeholder w (fst pair, snd pair) = w" by (rule replace_placeholder_absent)
  with Cons show ?case by simp
qed

subsection \<open>The mutators\<close>

lemma HandleReservedKeyword_selectFields [simp]:
  "HandleReservedKeyword (s\<lparr>selectFields := x\<rparr>) = HandleReservedKeyword s"
  by (rule ext) (simp add: HandleReservedKeyword_def)

lemma HandleReservedKeyword_whereConditions [simp]:
  "HandleReservedKeyword (s\<lparr>whereConditions := x\<rparr>) = HandleReservedKeyword s"
  by (rule ext) (simp add: HandleReservedKeyword_def)

lemma FormatDateTime_whereConditions [simp]:
  "FormatDateTime (s\<lparr>whereConditions := x\<rparr>) = FormatDateTime s"
  by (rule ext) (simp add: FormatDateTime_def)

lemma Select_eq:
  "Select field_list s = s\<lparr>selectFields := selectFields s @ map (HandleReservedKeyword s) field_list\<rparr>"
  by (induction field_list arbitrary: s) simp_all

lemma Where_eq:
  "Where conditions isDateTime s =
     s\<lparr>whereConditions := whereConditions s
        @ map (\<lambda>condition. HandleReservedKeyword s (fst condition) @ '' = ''
                 @ (if isDateTime then FormatDateTime s (snd condition) else snd condition))
            conditions\<rparr>"
  by (induction conditions arbitrary: s) simp_all

lemma WhereWithPlaceholder_eq:
  "WhereWithPlaceholder conditions s =
     s\<lparr>whereConditions := whereConditions s
        @ map (\<lambda>condition. HandleReservedKeyword s (fst condition) @ '' = '' @ snd condition)
            conditions\<rparr>"
  by (induction conditions arbitrary: s) simp_all

lemma SetValue_eq:
  "SetValue arrange placeholder v s = s\<lparr>values_map := values_map (SetValue arrange placeholder v s)\<rparr>"
  by (simp add: SetValue_def split: option.split)

lemma reachable_reservedKeywords:
  "reachable s \<Longrightarrow> reservedKeywords s = {''DATE'', ''USER'', ''ORDER'', ''GROUP'', ''INDEX''}"
proof (induction rule: reachable.induct)
  case (constructed t)
  show ?case by (simp add: new_SQLQueryBuilder_def InitializeReservedKeywords_def)
next
  case (after_Select s field_list)
  then show ?case by (simp add: Select_eq)
next
  case (after_From s table)
  then show ?case by (simp add: From_def)
next
  case (after_Distinct s)
  then show ?case by (simp add: Distinct_def)
next
  case (after_Where s conditions isDateTime)
  then show ?case by (simp add: Where_eq)
next
  case (after_WhereWithPlaceholder s conditions)
  then show ?case by (simp add: WhereWithPlaceholder_eq)
next
  case (after_SetValue s arrange placeholder v)
  then show ?case by (subst SetValue_eq) simp
next
  case (after_InnerJoin s table onCondition)
  then show ?case by (simp add: InnerJoin_def)
next
  case (after_OrderBy s field ascending)
  then show ?case by (simp add: OrderBy_def)
next
  case (after_Index s indexName)
  then show ?case by (simp add: Index_def)
next
  case (after_Limit s n)
  then show ?case by (simp add: Limit_def)
next
  case (after_Offset s n)
  then show ?case by (simp add: Offset_def)
qed

subsection \<open>The steps of Build\<close>

lemma put_eq: "put t f = f\<lparr>query := query f @ t\<rparr>"
  by (simp add: put_def)

lemma Build_joins_loop_eq:
  "Build_joins_loop js f = f\<lparr>query := query f @ concat (map (\<lambda>join. '' '' @ join) js)\<rparr>"
  by (induction js arbitrary: f) (simp_all add: put_def)

lemma emitted_select: "emitted Build_select s = ''SELECT ''"
  by (simp add: emitted_def Build_select_def put_def)

lemma emitted_oracle_hint:
  "emitted Build_oracle_hint s =
     (if dbType s = Oracle \<and> indexClause s \<noteq> []
      then '' /*+ INDEX('' @ tableName s @ '', '' @ indexClause s @ '') */ '' else [])"
  by (simp add: emitted_def Build_oracle_hint_def put_def)

lemma emitted_fields:
  "emitted Build_fields s =
     (if selectFields s = [] then ''*''
      else (if is_distinct s then '' DISTINCT  '' else []) @ Join (selectFields s) '', '')"
  by (simp add: emitted_def Build_fields_def put_def)

lemma emitted_from: "emitted Build_from s = '' FROM '' @ tableName s"
  by (simp add: emitted_def Build_from_def put_def)

lemma emitted_force_index:
  "emitted Build_force_index s =
     (if dbType s = MariaDB \<and> indexClause s \<noteq> []
      then '' FORCE INDEX('' @ indexClause s @ '') '' else [])"
  by (simp add: emitted_def Build_force_index_def put_def)

lemma emitted_joins: "emitted Build_joins s = concat (map (\<lambda>join. '' '' @ join) (joins s))"
  by (simp add: emitted_def Build_joins_def Build_joins_loop_eq)

lemma emitted_where:
  "emitted Build_where s =
     (if whereConditions s \<noteq> []
      then '' WHERE '' @ Build_values_loop (values_map s) (Join (whereConditions s) '' AND '')
      else [])"
  by (simp add: emitted_def Build_where_def put_def)

lemma emitted_orderBy:
  "emitted Build_orderBy s = (if orderBy s \<noteq> [] then '' ORDER BY '' @ orderBy s else [])"
  by (simp add: emitted_def Build_orderBy_def put_def)

lemma emitted_pagination:
  "emitted Build_pagination s =
     (case dbType s of
        MariaDB \<Rightarrow>
          (if 0 \<le> limit s
           then '' LIMIT '' @ int_to_string (limit s)
                  @ (if 0 < offset s then '' OFFSET '' @ int_to_string (offset s) else [])
           else [])
      | Oracle \<Rightarrow>
          (if 0 \<le> limit s then '' FETCH FIRST '' @ int_to_string (limit s) @ '' ROWS ONLY''
           else []))"
  by (cases "dbType s") (simp_all add: emitted_def Build_pagination_def put_def)

text \<open>Every step leaves the object as it is and appends what it writes to the stream.\<close>

lemma Build_select_step: "Build_select f = f\<lparr>query := query f @ emitted Build_select (self f)\<rparr>"
  by (simp add: emitted_def Build_select_def put_def)

lemma Build_oracle_hint_step:
  "Build_oracle_hint f = f\<lparr>query := query f @ emitted Build_oracle_hint (self f)\<rparr>"
  by (simp add: emitted_def Build_oracle_hint_def put_def)

lemma Build_fields_step: "Build_fields f = f\<lparr>query := query f @ emitted Build_fields (self f)\<rparr>"
  by (simp add: emitted_def Build_fields_def put_def)

lemma Build_from_step: "Build_from f = f\<lparr>query := query f @ emitted Build_from (self f)\<rparr>"
  by (simp add: emitted_def Build_from_def put_def)

lemma Build_force_index_step:
  "Build_force_index f = f\<lparr>query := query f @ emitted Build_force_index (self f)\<rparr>"
  by (simp add: emitted_def Build_force_index_def put_def)

lemma Build_joins_step: "Build_joins f = f\<lparr>query := query f @ emitted Build_joins (self f)\<rparr>"
  by (simp add: emitted_def Build_joins_def Build_joins_loop_eq)

lemma Build_where_step: "Build_where f = f\<lparr>query := query f @ emitted Build_where (self f)\<rparr>"
  by (simp add: emitted_def Build_where_def put_def)

lemma Build_orderBy_step: "Build_orderBy f = f\<lparr>query := query f @ emitted Build_orderBy (self f)\<rparr>"
  by (simp add: emitted_def Build_orderBy_def put_def)

lemma Build_pagination_step:
  "Build_pagination f = f\<lparr>query := query f @ emitted Build_pagination (self f)\<rparr>"
  by (simp add: emitted_def Build_pagination_def put_def Let_def)

lemma Build_body_eq:
  "Build_body f =
     f\<lparr>query := query f @ emitted Build_select (self f) @ emitted Build_oracle_hint (self f)
          @ emitted Build_fields (self f) @ emitted Build_from (self f)
          @ emitted Build_force_index (self f) @ emitted Build_joins (self f)
          @ emitted Build_where (self f) @ emitted Build_orderBy (self f)
          @ emitted Build_pagination (self f)\<rparr>"
  unfolding Build_body_def
  apply (subst Build_select_step)
  apply (subst Build_oracle_hint_step)
  apply (subst Build_fields_step)
  apply (subst Build_from_step)
  apply (subst Build_force_index_step)
  apply (subst Build_joins_step)
  apply (subst Build_where_step)
  apply (subst Build_orderBy_step)
  apply (subst Build_pagination_step)
  apply simp
  done

lemma Build_call_eq:
  "Build_call s =
     (emitted Build_select s @ emitted Build_oracle_hint s @ emitted Build_fields s
        @ emitted Build_from s @ emitted Build_force_index s @ emitted Build_joins s
        @ emitted Build_where s @ emitted Build_orderBy s @ emitted Build_pagination s, s)"
  by (simp add: Build_call_def Build_body_eq)

lemma Build_parts:
  "Build s =
     emitted Build_select s @ emitted Build_oracle_hint s @ emitted Build_fields s
       @ emitted Build_from s @ emitted Build_force_index s @ emitted Build_joins s
       @ emitted Build_where s @ emitted Build_orderBy s @ emitted Build_pagination s"
  by (simp add: Build_def Build_call_eq)

subsection \<open>Evaluation\<close>

lemmas mutator_defs = new_SQLQueryBuilder_def InitializeReservedKeywords_def From_def Distinct_def
  SetValue_def InnerJoin_def OrderBy_def Index_def Limit_def Offset_def HandleReservedKeyword_def
  FormatDateTime_def

lemmas emitted_simps = emitted_select emitted_oracle_hint emitted_fields emitted_from
  emitted_force_index emitted_joins emitted_where emitted_orderBy emitted_pagination

lemmas eval_defs = Join_def replace_placeholder_def str_replace_def int_to_string_def
  digits_of.simps digit_char_def

lemma main_example_state:
  "main_example =
     \<lparr>dbType = MariaDB,
      selectFields = [''id'', ''name'', [CHR 0x60] @ ''DATE'' @ [CHR 0x60]],
      tableName = ''users'', whereConditions = [''join_date = ?joindate''],
      joins = [''INNER JOIN orders ON users.id = orders.user_id''],
      orderBy = ''name ASC'', indexClause = ''idx_users_name'', is_distinct = True,
      limit = 10, offset = 5, values_map = [(''?joindate'', ''SYSDATE'')],
      reservedKeywords = {''DATE'', ''USER'', ''ORDER'', ''GROUP'', ''INDEX''}\<rparr>"
  unfolding main_example_def by (simp add: mutator_defs)

lemma prefix_token_example_state:
  "prefix_token_example =
     \<lparr>dbType = MariaDB, selectFields = [], tableName = ''t'',
      whereConditions = [''a = :id2'', ''b = :id''], joins = [], orderBy = [],
      indexClause = [], is_distinct = False, limit = - 1, offset = - 1,
      values_map = [('':id'', ''7'')],
      reservedKeywords = {''DATE'', ''USER'', ''ORDER'', ''GROUP'', ''INDEX''}\<rparr>"
  unfolding prefix_token_example_def by (simp add: mutator_defs eval_defs)

lemma empty_key_example_state:
  "empty_key_example =
     \<lparr>dbType = MariaDB, selectFields = [], tableName = ''t'',
      whereConditions = [''c = 1''], joins = [], orderBy = [], indexClause = [],
      is_distinct = False, limit = - 1, offset = - 1,
      values_map = [([], ''a''), (''a'', ''b'')],
      reservedKeywords = {''DATE'', ''USER'', ''ORDER'', ''GROUP'', ''INDEX''}\<rparr>"
  unfolding empty_key_example_def by (simp add: mutator_defs)

lemma only_empty_key_example_state:
  "only_empty_key_example =
     \<lparr>dbType = MariaDB, selectFields = [], tableName = ''t'',
      whereConditions = [''c = 1''], joins = [], orderBy = [], indexClause = [],
      is_distinct = False, limit = - 1, offset = - 1, values_map = [([], ''NOT '')],
      reservedKeywords = {''DATE'', ''USER'', ''ORDER'', ''GROUP'', ''INDEX''}\<rparr>"
  unfolding only_empty_key_example_def by (simp add: mutator_defs)

lemma unused_token_example_state:
  "unused_token_example =
     \<lparr>dbType = MariaDB, selectFields = [], tableName = ''users'',
      whereConditions = [''join_date = ?joindate''], joins = [], orderBy = [],
      indexClause = [], is_distinct = False, limit = - 1, offset = - 1,
      values_map = [(''?id'', ''7'')],
      reservedKeywords = {''DATE'', ''USER'', ''ORDER'', ''GROUP'', ''INDEX''}\<rparr>"
  unfolding unused_token_example_def by (simp add: mutator_defs eval_defs)

lemma main_example_Build:
  "Build main_example =
     ''SELECT  DISTINCT  id, name, '' @ [CHR 0x60] @ ''DATE'' @ [CHR 0x60]
       @ '' FROM users FORCE INDEX(idx_users_name)  INNER JOIN orders ON users.id = orders.user_id''
       @ '' WHERE join_date = SYSDATE ORDER BY name ASC LIMIT 10 OFFSET 5''"
  by (simp add: Build_parts emitted_simps main_example_state eval_defs)

section \<open>The claims\<close>

subsection \<open>C1: escaping of reserved keywords\<close>

text \<open>
  C1. In every state a program can bring a builder into, a string passed as a column to
  \<open>Select\<close>, \<open>Where\<close>, \<open>WhereWithPlaceholder\<close> or \<open>OrderBy\<close> goes through
  \<open>HandleReservedKeyword\<close>, which wraps it in back-ticks (MariaDB) or in double quotes
  (Oracle) if and only if it is exactly one of DATE, USER, ORDER, GROUP, INDEX, and
  returns every other string unchanged.
\<close>

theorem reserved_keyword_escaping:
  assumes "reachable s"
  shows "HandleReservedKeyword s field =
           (if field \<in> {''DATE'', ''USER'', ''ORDER'', ''GROUP'', ''INDEX''}
            then (case dbType s of
                    MariaDB \<Rightarrow> [CHR 0x60] @ field @ [CHR 0x60]
                  | Oracle \<Rightarrow> [CHR 0x22] @ field @ [CHR 0x22])
            else field)
       \<and> (HandleReservedKeyword s field \<noteq> field)
           = (field \<in> {''DATE'', ''USER'', ''ORDER'', ''GROUP'', ''INDEX''})
       \<and> selectFields (Select field_list s)
           = selectFields s @ map (HandleReservedKeyword s) field_list
       \<and> whereConditions (Where conditions isDateTime s)
           = whereConditions s
             @ map (\<lambda>condition. HandleReservedKeyword s (fst condition) @ '' = ''
                      @ (if isDateTime then FormatDateTime s (snd condition) else snd condition))
                 conditions
       \<and> whereConditions (WhereWithPlaceholder conditions s)
           = whereConditions s
             @ map (\<lambda>condition. HandleReservedKeyword s (fst condition) @ '' = '' @ snd condition)
                 conditions
       \<and> orderBy (OrderBy field ascending s)
           = HandleReservedKeyword s field @ (if ascending then '' ASC'' else '' DESC'')"
proof -
  define K where "K = {''DATE'', ''USER'', ''ORDER'', ''GROUP'', ''INDEX''}"
  from assms have kw: "reservedKeywords s = K"
    unfolding K_def by (rule reachable_reservedKeywords)
  have a: "HandleReservedKeyword s field =
           (if field \<in> K
            then (case dbType s of
                    MariaDB \<Rightarrow> [CHR 0x60] @ field @ [CHR 0x60]
                  | Oracle \<Rightarrow> [CHR 0x22] @ field @ [CHR 0x22])
            else field)"
    unfolding HandleReservedKeyword_def kw by (cases "dbType s") simp_all
  have "length ([c] @ field @ [c]) \<noteq> length field" for c :: char by simp
  then have ne: "[c] @ field @ [c] \<noteq> field" for c :: char by metis
  have b: "(HandleReservedKeyword s field \<noteq> field) = (field \<in> K)"
  proof (cases "field \<in> K")
    case True
    show ?thesis
    proof (cases "dbType s")
      case Oracle
      with True ne [of "CHR 0x22"] show ?thesis by (simp add: a)
    next
      case MariaDB
      with True ne [of "CHR 0x60"] show ?thesis by (simp add: a)
    qed
  next
    case False
    then show ?thesis by (simp add: a)
  qed
  have c: "selectFields (Select field_list s)
             = selectFields s @ map (HandleReservedKeyword s) field_list"
    by (simp add: Select_eq)
  have d: "whereConditions (Where conditions isDateTime s)
           = whereConditions s
             @ map (\<lambda>condition. HandleReservedKeyword s (fst condition) @ '' = ''
                      @ (if isDateTime then FormatDateTime s (snd condition) else snd condition))
                 conditions"
    by (simp add: Where_eq)
  have e: "whereConditions (WhereWithPlaceholder conditions s)
           = whereConditions s
             @ map (\<lambda>condition. HandleReservedKeyword s (fst condition) @ '' = '' @ snd condition)
                 conditions"
    by (simp add: WhereWithPlaceholder_eq)
  have f: "orderBy (OrderBy field ascending s)
           = HandleReservedKeyword s field @ (if ascending then '' ASC'' else '' DESC'')"
    by (simp add: OrderBy_def)
  from a b c d e f show ?thesis unfolding K_def by blast
qed

theorem reserved_keyword_escaping_witness:
  "reachable (new_SQLQueryBuilder MariaDB)
   \<and> HandleReservedKeyword (new_SQLQueryBuilder MariaDB) ''DATE'' = [CHR 0x60] @ ''DATE'' @ [CHR 0x60]
   \<and> selectFields (Select [''id'', ''DATE''] (new_SQLQueryBuilder MariaDB))
        = [''id'', [CHR 0x60] @ ''DATE'' @ [CHR 0x60]]
   \<and> orderBy (OrderBy ''DATE'' True (new_SQLQueryBuilder MariaDB))
        = [CHR 0x60] @ ''DATE'' @ [CHR 0x60] @ '' ASC''"
proof -
  have r: "reachable (new_SQLQueryBuilder MariaDB)" by (rule reachable.constructed)
  have d: "dbType (new_SQLQueryBuilder MariaDB) = MariaDB" "selectFields (new_SQLQueryBuilder MariaDB) = []"
    by (simp_all add: new_SQLQueryBuilder_def InitializeReservedKeywords_def)
  have i: "HandleReservedKeyword (new_SQLQueryBuilder MariaDB) ''id'' = ''id''"
    using reserved_keyword_escaping [OF r, of "''id''"] by simp
  from r i d reserved_keyword_escaping [OF r, of "''DATE''" "[''id'', ''DATE'']" "[]" False True]
  show ?thesis by simp
qed

subsection \<open>C4: date and time values\<close>

text \<open>
  C4. \<open>Where\<close> with \<open>isDateTime\<close> set stores, for every value \<open>v\<close> whatever its
  text, \<open>'v'\<close> (MariaDB) or \<open>TO_TIMESTAMP('v', 'YYYY-MM-DD HH24:MI:SS')\<close> (Oracle) after
  the column and \<open>=\<close>; without \<open>isDateTime\<close> it stores \<open>v\<close> as it is.
\<close>

theorem Where_date_time_formatting:
  "whereConditions (Where conditions True s)
     = whereConditions s
       @ map (\<lambda>condition. HandleReservedKeyword s (fst condition) @ '' = ''
                @ (case dbType s of
                     MariaDB \<Rightarrow> [CHR 0x27] @ snd condition @ [CHR 0x27]
                   | Oracle \<Rightarrow> ''TO_TIMESTAMP('' @ [CHR 0x27] @ snd condition @ [CHR 0x27]
                       @ '', '' @ [CHR 0x27] @ ''YYYY-MM-DD HH24:MI:SS'' @ [CHR 0x27] @ '')''))
           conditions
   \<and> whereConditions (Where conditions False s)
     = whereConditions s
       @ map (\<lambda>condition. HandleReservedKeyword s (fst condition) @ '' = '' @ snd condition)
           conditions"
proof -
  have fmt: "FormatDateTime s dateTime =
      (case dbType s of
         MariaDB \<Rightarrow> [CHR 0x27] @ dateTime @ [CHR 0x27]
       | Oracle \<Rightarrow> ''TO_TIMESTAMP('' @ [CHR 0x27] @ dateTime @ [CHR 0x27]
           @ '', '' @ [CHR 0x27] @ ''YYYY-MM-DD HH24:MI:SS'' @ [CHR 0x27] @ '')'')" for dateTime
    by (cases "dbType s") (simp_all add: FormatDateTime_def)
  have with_date: "whereConditions (Where conditions True s)
     = whereConditions s
       @ map (\<lambda>condition. HandleReservedKeyword s (fst condition) @ '' = ''
                @ FormatDateTime s (snd condition)) conditions"
    by (simp add: Where_eq)
  have without: "whereConditions (Where conditions False s)
     = whereConditions s
       @ map (\<lambda>condition. HandleReservedKeyword s (fst condition) @ '' = '' @ snd condition)
           conditions"
    by (simp add: Where_eq)
  from with_date without show ?thesis unfolding fmt by (rule conjI)
qed

subsection \<open>C7: Build changes nothing\<close>

text \<open>
  C7. A call of \<open>Build\<close> leaves the object as it was: no step of the body changes a
  field. Two calls with no mutator between them return the same text.
\<close>

theorem Build_is_pure:
  "snd (Build_call s) = s
   \<and> self (Build_body \<lparr>self = s, query = q\<rparr>) = s
   \<and> fst (Build_call (snd (Build_call s))) = fst (Build_call s)
   \<and> Build s = fst (Build_call s)"
proof -
  have body: "self (Build_body \<lparr>self = s, query = q\<rparr>) = s"
    by (simp add: Build_body_eq)
  have after: "snd (Build_call s) = s"
    by (simp add: Build_call_eq)
  then have again: "fst (Build_call (snd (Build_call s))) = fst (Build_call s)"
    by (simp only:)
  have "Build s = fst (Build_call s)"
    by (rule Build_def)
  with body after again show ?thesis by blast
qed

subsection \<open>C10: what the mutators change\<close>

text \<open>
  C10. Every mutator returns the builder it was called on (the model returns the state
  of that builder after the call), and that state differs from the one before the call
  in the mutator's own field only: \<open>selectFields\<close> for \<open>Select\<close>, \<open>tableName\<close> for
  \<open>From\<close>, \<open>is_distinct\<close> for \<open>Distinct\<close>, \<open>whereConditions\<close> for \<open>Where\<close> and
  \<open>WhereWithPlaceholder\<close>, \<open>values\<close> for \<open>SetValue\<close>, \<open>joins\<close> for \<open>InnerJoin\<close>,
  \<open>orderBy\<close> for \<open>OrderBy\<close>, \<open>indexClause\<close> for \<open>Index\<close>, \<open>limit\<close> for \<open>Limit\<close>,
  \<open>offset\<close> for \<open>Offset\<close>. In particular \<open>dbType\<close> and \<open>reservedKeywords\<close> stay.
\<close>

theorem mutators_frame:
  "Select field_list s = s\<lparr>selectFields := selectFields (Select field_list s)\<rparr>
   \<and> From table s = s\<lparr>tableName := tableName (From table s)\<rparr>
   \<and> Distinct s = s\<lparr>is_distinct := is_distinct (Distinct s)\<rparr>
   \<and> Where conditions isDateTime s
       = s\<lparr>whereConditions := whereConditions (Where conditions isDateTime s)\<rparr>
   \<and> WhereWithPlaceholder conditions s
       = s\<lparr>whereConditions := whereConditions (WhereWithPlaceholder conditions s)\<rparr>
   \<and> SetValue arrange placeholder v s
       = s\<lparr>values_map := values_map (SetValue arrange placeholder v s)\<rparr>
   \<and> InnerJoin table onCondition s = s\<lparr>joins := joins (InnerJoin table onCondition s)\<rparr>
   \<and> OrderBy field ascending s = s\<lparr>orderBy := orderBy (OrderBy field ascending s)\<rparr>
   \<and> Index indexName s = s\<lparr>indexClause := indexClause (Index indexName s)\<rparr>
   \<and> Limit n s = s\<lparr>limit := limit (Limit n s)\<rparr>
   \<and> Offset n s = s\<lparr>offset := offset (Offset n s)\<rparr>
   \<and> map dbType
         [Select field_list s, From table s, Distinct s, Where conditions isDateTime s,
          WhereWithPlaceholder conditions s, SetValue arrange placeholder v s,
          InnerJoin table onCondition s, OrderBy field ascending s, Index indexName s,
          Limit n s, Offset n s]
       = replicate 11 (dbType s)
   \<and> map reservedKeywords
         [Select field_list s, From table s, Distinct s, Where conditions isDateTime s,
          WhereWithPlaceholder conditions s, SetValue arrange placeholder v s,
          InnerJoin table onCondition s, OrderBy field ascending s, Index indexName s,
          Limit n s, Offset n s]
       = replicate 11 (reservedKeywords s)"
proof -
  have 1: "Select field_list s = s\<lparr>selectFields := selectFields (Select field_list s)\<rparr>"
    by (simp add: Select_eq)
  have 2: "Where conditions isDateTime s
       = s\<lparr>whereConditions := whereConditions (Where conditions isDateTime s)\<rparr>"
    by (simp add: Where_eq)
  have 3: "WhereWithPlaceholder conditions s
       = s\<lparr>whereConditions := whereConditions (WhereWithPlaceholder conditions s)\<rparr>"
    by (simp add: WhereWithPlaceholder_eq)
  have 4: "SetValue arrange placeholder v s
       = s\<lparr>values_map := values_map (SetValue arrange placeholder v s)\<rparr>"
    by (rule SetValue_eq)
  have 5: "From table s = s\<lparr>tableName := tableName (From table s)\<rparr>"
    "Distinct s = s\<lparr>is_distinct := is_distinct (Distinct s)\<rparr>"
    "InnerJoin table onCondition s = s\<lparr>joins := joins (InnerJoin table onCondition s)\<rparr>"
    "OrderBy field ascending s = s\<lparr>orderBy := orderBy (OrderBy field ascending s)\<rparr>"
    "Index indexName s = s\<lparr>indexClause := indexClause (Index indexName s)\<rparr>"
    "Limit n s = s\<lparr>limit := limit (Limit n s)\<rparr>"
    "Offset n s = s\<lparr>offset := offset (Offset n s)\<rparr>"
    by (simp_all add: From_def Distinct_def InnerJoin_def OrderBy_def Index_def Limit_def
          Offset_def)
  have 6: "dbType (SetValue arrange placeholder v s) = dbType s"
    "reservedKeywords (SetValue arrange placeholder v s) = reservedKeywords s"
    by (simp_all add: SetValue_def split: option.split)
  have 7: "map dbType
         [Select field_list s, From table s, Distinct s, Where conditions isDateTime s,
          WhereWithPlaceholder conditions s, SetValue arrange placeholder v s,
          InnerJoin table onCondition s, OrderBy field ascending s, Index indexName s,
          Limit n s, Offset n s]
       = replicate 11 (dbType s)"
    by (simp add: 6 Select_eq Where_eq WhereWithPlaceholder_eq From_def Distinct_def
          InnerJoin_def OrderBy_def Index_def Limit_def Offset_def eval_nat_numeral)
  have 8: "map reservedKeywords
         [Select field_list s, From table s, Distinct s, Where conditions isDateTime s,
          WhereWithPlaceholder conditions s, SetValue arrange placeholder v s,
          InnerJoin table onCondition s, OrderBy field ascending s, Index indexName s,
          Limit n s, Offset n s]
       = replicate 11 (reservedKeywords s)"
    by (simp add: 6 Select_eq Where_eq WhereWithPlaceholder_eq From_def Distinct_def
          InnerJoin_def OrderBy_def Index_def Limit_def Offset_def eval_nat_numeral)
  from 1 2 3 4 5 7 8 show ?thesis by blast
qed



subsection \<open>C3: LIMIT, OFFSET and FETCH FIRST\<close>

text \<open>
  C3. The last step of \<open>Build\<close> writes, for MariaDB, \<open> LIMIT n\<close> exactly when
  \<open>0 \<le> limit\<close>, followed by \<open> OFFSET m\<close> exactly when also \<open>0 < offset\<close>; for Oracle,
  \<open> FETCH FIRST n ROWS ONLY\<close> exactly when \<open>0 \<le> limit\<close>, and nothing else. The text
  of \<open>Build\<close> is the text for the same state with no limit, followed by what this step
  writes. For Oracle the offset has no influence on the text, and what the step writes
  does not contain \<open>OFFSET\<close>.
\<close>

theorem pagination_text:
  "emitted Build_pagination s =
     (case dbType s of
        MariaDB \<Rightarrow>
          (if 0 \<le> limit s
           then '' LIMIT '' @ int_to_string (limit s)
                  @ (if 0 < offset s then '' OFFSET '' @ int_to_string (offset s) else [])
           else [])
      | Oracle \<Rightarrow>
          (if 0 \<le> limit s then '' FETCH FIRST '' @ int_to_string (limit s) @ '' ROWS ONLY''
           else []))
   \<and> Build s = Build (s\<lparr>limit := - 1\<rparr>) @ emitted Build_pagination s
   \<and> Build (s\<lparr>dbType := Oracle, offset := m\<rparr>) = Build (s\<lparr>dbType := Oracle\<rparr>)
   \<and> \<not> sublist ''OFFSET'' (emitted Build_pagination (s\<lparr>dbType := Oracle\<rparr>))"
proof -
  have a: "Build s = Build (s\<lparr>limit := - 1\<rparr>) @ emitted Build_pagination s"
    by (cases "dbType s") (simp_all add: Build_parts emitted_simps)
  have b: "Build (s\<lparr>dbType := Oracle, offset := m\<rparr>) = Build (s\<lparr>dbType := Oracle\<rparr>)"
    by (simp add: Build_parts emitted_simps)
  have c: "\<not> sublist ''OFFSET'' (emitted Build_pagination (s\<lparr>dbType := Oracle\<rparr>))"
  proof (cases "0 \<le> limit s")
    case True
    then have "emitted Build_pagination (s\<lparr>dbType := Oracle\<rparr>)
                 = '' FETCH FIRST '' @ int_to_string (limit s) @ '' ROWS ONLY''"
      by (simp add: emitted_pagination)
    then show ?thesis by (simp only: no_OFFSET_in_fetch_first simp_thms)
  next
    case False
    then have "emitted Build_pagination (s\<lparr>dbType := Oracle\<rparr>) = []"
      by (simp add: emitted_pagination)
    then show ?thesis by simp
  qed
  from emitted_pagination [of s] a b c show ?thesis by blast
qed

subsection \<open>C5: index hints\<close>

text \<open>
  C5. With an index hint set, \<open>Build\<close> writes for Oracle the comment
  \<open> /*+ INDEX(table, index) */ \<close> right after \<open>SELECT \<close> and nothing between the table
  name and the joins; for MariaDB it writes \<open> FORCE INDEX(index) \<close> right after
  \<open> FROM table\<close> and nothing between \<open>SELECT \<close> and the columns. With no hint set it
  writes neither. The other parts of the text are those of the same state without a
  hint.
\<close>

theorem index_hint_text:
  "Build s =
     (if indexClause s = [] then
        ''SELECT '' @ emitted Build_fields s @ '' FROM '' @ tableName s
          @ emitted Build_joins s @ emitted Build_where s @ emitted Build_orderBy s
          @ emitted Build_pagination s
      else case dbType s of
        Oracle \<Rightarrow>
          ''SELECT '' @ '' /*+ INDEX('' @ tableName s @ '', '' @ indexClause s @ '') */ ''
            @ emitted Build_fields s @ '' FROM '' @ tableName s
            @ emitted Build_joins s @ emitted Build_where s @ emitted Build_orderBy s
            @ emitted Build_pagination s
      | MariaDB \<Rightarrow>
          ''SELECT '' @ emitted Build_fields s @ '' FROM '' @ tableName s
            @ '' FORCE INDEX('' @ indexClause s @ '') ''
            @ emitted Build_joins s @ emitted Build_where s @ emitted Build_orderBy s
            @ emitted Build_pagination s)
   \<and> Build (s\<lparr>indexClause := []\<rparr>) =
       ''SELECT '' @ emitted Build_fields s @ '' FROM '' @ tableName s
         @ emitted Build_joins s @ emitted Build_where s @ emitted Build_orderBy s
         @ emitted Build_pagination s"
proof -
  have a: "Build (s\<lparr>indexClause := []\<rparr>) =
       ''SELECT '' @ emitted Build_fields s @ '' FROM '' @ tableName s
         @ emitted Build_joins s @ emitted Build_where s @ emitted Build_orderBy s
         @ emitted Build_pagination s"
    by (cases "dbType s") (simp_all add: Build_parts emitted_simps)
  have b: "Build s =
     (if indexClause s = [] then
        ''SELECT '' @ emitted Build_fields s @ '' FROM '' @ tableName s
          @ emitted Build_joins s @ emitted Build_where s @ emitted Build_orderBy s
          @ emitted Build_pagination s
      else case dbType s of
        Oracle \<Rightarrow>
          ''SELECT '' @ '' /*+ INDEX('' @ tableName s @ '', '' @ indexClause s @ '') */ ''
            @ emitted Build_fields s @ '' FROM '' @ tableName s
            @ emitted Build_joins s @ emitted Build_where s @ emitted Build_orderBy s
            @ emitted Build_pagination s
      | MariaDB \<Rightarrow>
          ''SELECT '' @ emitted Build_fields s @ '' FROM '' @ tableName s
            @ '' FORCE INDEX('' @ indexClause s @ '') ''
            @ emitted Build_joins s @ emitted Build_where s @ emitted Build_orderBy s
            @ emitted Build_pagination s)"
    by (cases "dbType s")
      (simp_all add: Build_parts emitted_select emitted_oracle_hint emitted_from
         emitted_force_index)
  from a b show ?thesis by (rule conjI [rotated])
qed

subsection \<open>C6: the column list\<close>

text \<open>
  C6. In the column position, right after \<open>SELECT \<close> and the Oracle hint if there is
  one, \<open>Build\<close> writes \<open>*\<close> when no column was selected, also when \<open>is_distinct\<close> is
  set; otherwise it writes \<open> DISTINCT  \<close> (one space before, two after) when
  \<open>is_distinct\<close> is set, and then the columns in the order of the list, \<open>, \<close>
  between two of them.
\<close>

theorem column_list_text:
  "emitted Build_fields s =
     (if selectFields s = [] then ''*''
      else (if is_distinct s then '' DISTINCT  '' else []) @ Join (selectFields s) '', '')
   \<and> Build s = ''SELECT '' @ emitted Build_oracle_hint s @ emitted Build_fields s
        @ '' FROM '' @ tableName s @ emitted Build_force_index s @ emitted Build_joins s
        @ emitted Build_where s @ emitted Build_orderBy s @ emitted Build_pagination s
   \<and> Join [] delimiter = []
   \<and> Join [column] delimiter = column
   \<and> Join (column # next_column # columns) delimiter
       = column @ delimiter @ Join (next_column # columns) delimiter"
proof -
  have "Build s = ''SELECT '' @ emitted Build_oracle_hint s @ emitted Build_fields s
        @ '' FROM '' @ tableName s @ emitted Build_force_index s @ emitted Build_joins s
        @ emitted Build_where s @ emitted Build_orderBy s @ emitted Build_pagination s"
    by (simp add: Build_parts emitted_select emitted_from)
  with emitted_fields [of s] Join_Nil [of delimiter] Join_single [of column delimiter]
    Join_Cons_Cons [of column next_column columns delimiter]
  show ?thesis by blast
qed

subsection \<open>C8: a new builder\<close>

text \<open>
  C8, as the code has it. A new builder holds \<open>- 1\<close> in \<open>limit\<close> and \<open>- 1\<close> in
  \<open>offset\<close> (not 0; an offset is written only when it is greater than 0). The last
  step of \<open>Build\<close> writes nothing for it, and its text, \<open>SELECT * FROM \<close>, has no
  \<open>LIMIT\<close>, \<open>OFFSET\<close> or \<open>FETCH FIRST\<close> in it, in either dialect.
\<close>

theorem new_builder_pagination:
  "limit (new_SQLQueryBuilder t) = - 1
   \<and> offset (new_SQLQueryBuilder t) = - 1
   \<and> emitted Build_pagination (new_SQLQueryBuilder t) = []
   \<and> Build (new_SQLQueryBuilder t) = ''SELECT * FROM ''
   \<and> \<not> sublist ''LIMIT'' (Build (new_SQLQueryBuilder t))
   \<and> \<not> sublist ''OFFSET'' (Build (new_SQLQueryBuilder t))
   \<and> \<not> sublist ''FETCH FIRST'' (Build (new_SQLQueryBuilder t))"
proof -
  have s: "new_SQLQueryBuilder t =
      \<lparr>dbType = t, selectFields = [], tableName = [], whereConditions = [], joins = [],
       orderBy = [], indexClause = [], is_distinct = False, limit = - 1, offset = - 1,
       values_map = [],
       reservedKeywords = {''DATE'', ''USER'', ''ORDER'', ''GROUP'', ''INDEX''}\<rparr>"
    by (simp add: new_SQLQueryBuilder_def InitializeReservedKeywords_def)
  have p: "emitted Build_pagination (new_SQLQueryBuilder t) = []"
    by (cases t)
      (simp_all add: emitted_pagination new_SQLQueryBuilder_def InitializeReservedKeywords_def)
  have b: "Build (new_SQLQueryBuilder t) = ''SELECT * FROM ''"
    by (simp add: Build_parts p) (simp add: s emitted_simps)
  have n: "\<not> sublist ''LIMIT'' ''SELECT * FROM ''" "\<not> sublist ''OFFSET'' ''SELECT * FROM ''"
    "\<not> sublist ''FETCH FIRST'' ''SELECT * FROM ''"
    by (simp_all add: sublist_Cons_right)
  show ?thesis unfolding b p using n by (simp add: s)
qed

theorem new_builder_offset_counterexample:
  "offset (new_SQLQueryBuilder MariaDB) \<noteq> 0 \<and> offset (new_SQLQueryBuilder Oracle) \<noteq> 0"
  by (simp add: new_SQLQueryBuilder_def InitializeReservedKeywords_def)

subsection \<open>C2: placeholders in the WHERE clause\<close>

text \<open>
  C2, as the code has it. When there is a where-condition, \<open>Build\<close> joins the conditions
  with \<open> AND \<close> in the order of the list and then applies the entries of \<open>values\<close> one
  after the other, each once, in the order in which the table iterates over them. An
  entry acts on the text as the entries before it have left it: when its token occurs
  there, the first occurrence gives way to its value, and the text stays as it is
  otherwise. The result follows \<open> WHERE \<close>. When no token of the table occurs in
  the joined text (so also when \<open>SetValue\<close> was never called), the joined text is
  written as it is.
\<close>

theorem where_clause_substitution:
  assumes "whereConditions s \<noteq> []"
  shows "emitted Build_where s
           = '' WHERE '' @ foldl replace_placeholder (Join (whereConditions s) '' AND '')
                              (values_map s)
       \<and> Join [c] '' AND '' = c
       \<and> Join (c # c' # cs) '' AND '' = c @ '' AND '' @ Join (c' # cs) '' AND ''
       \<and> (\<not> sublist token w \<longrightarrow> replace_placeholder w (token, v) = w)
       \<and> ((\<forall>q<length before. \<not> prefix token (drop q (before @ token @ after)))
            \<longrightarrow> replace_placeholder (before @ token @ after) (token, v) = before @ v @ after)
       \<and> ((\<forall>pair\<in>set (values_map s).
               \<not> sublist (fst pair) (Join (whereConditions s) '' AND ''))
            \<longrightarrow> emitted Build_where s = '' WHERE '' @ Join (whereConditions s) '' AND '')
       \<and> (values_map s = []
            \<longrightarrow> emitted Build_where s = '' WHERE '' @ Join (whereConditions s) '' AND '')"
proof -
  have a: "emitted Build_where s
           = '' WHERE '' @ foldl replace_placeholder (Join (whereConditions s) '' AND '')
                              (values_map s)"
    using assms by (simp add: emitted_where Build_values_loop_foldl)
  have b: "(\<forall>pair\<in>set (values_map s).
               \<not> sublist (fst pair) (Join (whereConditions s) '' AND ''))
            \<longrightarrow> emitted Build_where s = '' WHERE '' @ Join (whereConditions s) '' AND ''"
    using assms by (simp add: emitted_where Build_values_loop_absent)
  have c: "values_map s = []
            \<longrightarrow> emitted Build_where s = '' WHERE '' @ Join (whereConditions s) '' AND ''"
    using assms by (simp add: emitted_where)
  from a b c Join_single [of c "'' AND ''"] Join_Cons_Cons [of c c' cs "'' AND ''"]
    replace_placeholder_absent [of token w v] replace_placeholder_first [of before token after v]
  show ?thesis by blast
qed

theorem where_clause_substitution_witness:
  "whereConditions main_example \<noteq> []
   \<and> emitted Build_where main_example = '' WHERE join_date = SYSDATE''
   \<and> replace_placeholder ''join_date = ?joindate'' (''?joindate'', ''SYSDATE'')
        = ''join_date = SYSDATE''
   \<and> replace_placeholder ''join_date = ?joindate'' (''?id'', ''7'') = ''join_date = ?joindate''
   \<and> emitted Build_where unused_token_example
        = '' WHERE join_date = ?joindate''"
proof -
  have h: "whereConditions main_example \<noteq> []"
    by (simp add: main_example_state)
  have h': "whereConditions unused_token_example \<noteq> []"
    by (simp add: unused_token_example_state)
  have absent: "\<not> sublist ''?id'' ''join_date = ?joindate''"
    by (simp add: sublist_Cons_right)
  have "str_find ''join_date = ?joindate'' ''?joindate'' = Some 12"
    by simp
  from str_find_Some [OF this]
  have first: "\<forall>q<length ''join_date = ''.
                 \<not> prefix ''?joindate'' (drop q (''join_date = '' @ ''?joindate'' @ []))"
    by simp
  have j: "Join (whereConditions main_example) '' AND '' = ''join_date = ?joindate''"
    by (simp add: main_example_state Join_def)
  have v: "values_map main_example = [(''?joindate'', ''SYSDATE'')]"
    by (simp add: main_example_state)
  note t = where_clause_substitution [OF h, where token = "''?id''"
      and w = "''join_date = ?joindate''" and v = "''7''"]
  note t' = where_clause_substitution [OF h', where token = "''?joindate''"
      and v = "''SYSDATE''" and before = "''join_date = ''" and after = "[]"]
  from t absent have 1: "replace_placeholder ''join_date = ?joindate'' (''?id'', ''7'')
        = ''join_date = ?joindate''"
    by blast
  from t' first have 2: "replace_placeholder (''join_date = '' @ ''?joindate'' @ [])
        (''?joindate'', ''SYSDATE'') = ''join_date = '' @ ''SYSDATE'' @ []"
    by blast
  from t have "emitted Build_where main_example
           = '' WHERE '' @ foldl replace_placeholder (Join (whereConditions main_example) '' AND '')
                              (values_map main_example)"
    by blast
  with 2 have 3: "emitted Build_where main_example = '' WHERE join_date = SYSDATE''"
    by (simp add: j v)
  have "\<forall>pair\<in>set (values_map unused_token_example).
           \<not> sublist (fst pair)
               (Join (whereConditions unused_token_example) '' AND '')"
    using absent by (simp add: unused_token_example_state Join_def)
  with t' have 4: "emitted Build_where unused_token_example
        = '' WHERE '' @ Join (whereConditions unused_token_example) '' AND ''"
    by blast
  have j': "Join (whereConditions unused_token_example) '' AND '' = ''join_date = ?joindate''"
    by (simp add: unused_token_example_state Join_def)
  from h 1 2 3 4 j' show ?thesis by simp
qed

theorem unset_token_counterexample:
  "map_of (values_map prefix_token_example) '':id2'' = None
   \<and> sublist '':id2'' (Join (whereConditions prefix_token_example) '' AND '')
   \<and> Build prefix_token_example = ''SELECT * FROM t WHERE a = 72 AND b = :id''
   \<and> \<not> sublist '':id2'' (Build prefix_token_example)"
proof -
  have b: "Build prefix_token_example = ''SELECT * FROM t WHERE a = 72 AND b = :id''"
    by (simp add: Build_parts emitted_simps prefix_token_example_state eval_defs)
  have j: "Join (whereConditions prefix_token_example) '' AND '' = ''a = :id2 AND b = :id''"
    by (simp add: prefix_token_example_state Join_def)
  have m: "map_of (values_map prefix_token_example) '':id2'' = None"
    by (simp add: prefix_token_example_state)
  have y: "sublist '':id2'' ''a = :id2 AND b = :id''"
    by (simp add: sublist_Cons_right)
  have n: "\<not> sublist '':id2'' ''SELECT * FROM t WHERE a = 72 AND b = :id''"
    by (simp add: sublist_Cons_right)
  from m y n show ?thesis unfolding b j by simp
qed

subsection \<open>C9: the empty string as a placeholder\<close>

text \<open>
  C9, as the code has it. The empty string is found at position 0 of any text, so the
  entry with the empty key puts its value at the very beginning of the text as the
  entries before it have left it; the entries after it then act on the result. When
  it is the last entry (or the only one), the WHERE clause begins with its value, and
  when it is the only one, the joined conditions follow, the first condition first.
\<close>

theorem empty_placeholder_key:
  assumes "whereConditions s \<noteq> []" and "values_map s = earlier @ ([], v) # later"
  shows "str_find w [] = Some 0
       \<and> replace_placeholder w ([], v) = v @ w
       \<and> emitted Build_where s
           = '' WHERE '' @ Build_values_loop later
               (v @ Build_values_loop earlier (Join (whereConditions s) '' AND ''))
       \<and> (later = [] \<longrightarrow> emitted Build_where s
             = '' WHERE '' @ v @ Build_values_loop earlier (Join (whereConditions s) '' AND ''))
       \<and> (later = [] \<and> earlier = [] \<longrightarrow> emitted Build_where s
             = '' WHERE '' @ v @ Join (whereConditions s) '' AND '')
       \<and> prefix (hd (whereConditions s)) (Join (whereConditions s) '' AND '')"
proof -
  have a: "emitted Build_where s
           = '' WHERE '' @ Build_values_loop later
               (v @ Build_values_loop earlier (Join (whereConditions s) '' AND ''))"
    using assms
    by (simp add: emitted_where Build_values_loop_append replace_placeholder_empty)
  from assms(1) obtain c cs where "whereConditions s = c # cs" by (cases "whereConditions s") auto
  then have p: "prefix (hd (whereConditions s)) (Join (whereConditions s) '' AND '')"
    by (simp add: Join_Cons_prefix)
  from a have b: "later = [] \<longrightarrow> emitted Build_where s
             = '' WHERE '' @ v @ Build_values_loop earlier (Join (whereConditions s) '' AND '')"
    by simp
  from a have c: "later = [] \<and> earlier = [] \<longrightarrow> emitted Build_where s
             = '' WHERE '' @ v @ Join (whereConditions s) '' AND ''"
    by simp
  from a b c p str_find_empty [of w] replace_placeholder_empty [of w v] show ?thesis by blast
qed

theorem empty_placeholder_key_witness:
  "whereConditions only_empty_key_example \<noteq> []
   \<and> values_map only_empty_key_example = [] @ ([], ''NOT '') # []
   \<and> emitted Build_where only_empty_key_example
        = '' WHERE NOT c = 1''"
proof -
  have h: "whereConditions only_empty_key_example \<noteq> []"
    by (simp add: only_empty_key_example_state)
  have v: "values_map only_empty_key_example = [] @ ([], ''NOT '') # []"
    by (simp add: only_empty_key_example_state)
  have j: "Join (whereConditions only_empty_key_example) '' AND '' = ''c = 1''"
    by (simp add: only_empty_key_example_state Join_def)
  from empty_placeholder_key [OF h v, of "[]"]
  have "emitted Build_where only_empty_key_example
          = '' WHERE '' @ ''NOT '' @ Join (whereConditions
              only_empty_key_example) '' AND ''"
    by blast
  with h v j show ?thesis by simp
qed

theorem empty_key_overwritten_counterexample:
  "whereConditions empty_key_example \<noteq> []
   \<and> map_of (values_map empty_key_example) [] = Some ''a''
   \<and> emitted Build_where empty_key_example = '' WHERE bc = 1''
   \<and> \<not> prefix ('' WHERE '' @ ''a'') (emitted Build_where empty_key_example)
   \<and> Build empty_key_example = ''SELECT * FROM t WHERE bc = 1''"
proof -
  have w: "emitted Build_where empty_key_example = '' WHERE bc = 1''"
    by (simp add: emitted_where empty_key_example_state eval_defs)
  have b: "Build empty_key_example = ''SELECT * FROM t WHERE bc = 1''"
    by (simp add: Build_parts emitted_simps empty_key_example_state eval_defs)
  show ?thesis unfolding w b by (simp add: empty_key_example_state)
qed

end
